theory Spec2Isabelle
  imports Complex_Main
begin

section \<open>Data model (src/types.ts, src/constants.ts)\<close>

text \<open>
  TypeScript \<^verbatim>\<open>number\<close> is modelled by \<open>real\<close> where the code does arithmetic on it
  (stability, deltas), by \<open>int\<close> for the integer fields of the response schemas
  (score, correctOptionIndex, difficulty) and by \<open>nat\<close> for counters and array indexes.
  NaN and the infinities are not values of the model. Strings are \<open>string\<close>; a value
  that may be \<^verbatim>\<open>null\<close> or \<^verbatim>\<open>undefined\<close> is an \<open>option\<close>. Field names that are
  reserved words of Isabelle, or that two records share, carry a prefix.
\<close>

datatype QuestionType = CONCEPT_CHECK | SOCRATIC_DEFENSE | COUNTER_THEORY

record StudyConcept =
  c_id :: string
  c_term :: string
  c_definition :: string
  c_analogy :: string
  mastered :: bool

record DeepDiveContent =
  theoreticalUnderpinnings :: string
  realWorldApplication :: string
  interdisciplinaryConnection :: string

text \<open>
  What \<^verbatim>\<open>generateDeepDive\<close> resolves with is \<^verbatim>\<open>JSON.parse(response.text)\<close>, returned without
  a check. The session tests this value as a whole when it looks it up in its cache, so the
  model keeps apart an object of the declared type (\<open>Content\<close>), the falsy JSON values
  \<^verbatim>\<open>null\<close>, \<^verbatim>\<open>false\<close>, \<^verbatim>\<open>0\<close> and \<^verbatim>\<open>""\<close> (\<open>Falsy\<close>), and every other, truthy, value
  (\<open>Malformed\<close>).
\<close>

datatype DeepDivePayload =
  Falsy
  | Content DeepDiveContent
  | Malformed

record ChallengeResult =
  passed :: bool
  cr_score :: int
  cr_feedback :: string

text \<open>The result type of \<^verbatim>\<open>evaluateSocraticAnswer\<close>: \<^verbatim>\<open>{score: number, feedback: string}\<close>.\<close>

record SocraticEvaluation =
  ev_score :: int
  ev_feedback :: string

record GameQuestion =
  q_id :: string
  q_type :: QuestionType
  question :: string
  q_options :: "string list option"
  correctOptionIndex :: "int option"
  explanation :: string
  difficulty :: int

record StudySessionData =
  title :: string
  summary :: string
  concepts :: "StudyConcept list"
  questions :: "GameQuestion list"

record PlayerStats =
  syncedNodes :: nat
  stability :: real
  streak :: nat

definition STABILITY_PENALTY :: real where
  "STABILITY_PENALTY = 15"

definition STABILITY_BONUS :: real where
  "STABILITY_BONUS = 10"

section \<open>Session state (src/components/Session.tsx)\<close>

datatype ViewMode = DATA_CORE | SIMULATION
datatype ConceptMode = OVERVIEW | DEEP_DIVE | SYNC_PROTOCOL
datatype MobileView = LIST | FOCUS

text \<open>One entry of the \<^verbatim>\<open>history\<close> state: \<^verbatim>\<open>{time: number, stability: number}\<close>.\<close>

record HistorySample =
  time :: nat
  sample_stability :: real

text \<open>
  The quiz feedback \<^verbatim>\<open>{type, msg}\<close>. The message is kept structured instead of rendered
  into one string: \<open>Explained e\<close> is \<^verbatim>\<open>currentQ.explanation\<close>, \<open>Incorrect e\<close> is
  \<^verbatim>\<open>`Incorrect. ${e}`\<close>, \<open>Evaluated f s\<close> is \<^verbatim>\<open>`[EVALUATION]: ${f} (Score: ${s}/100)`\<close>
  and \<open>CommunicationFailed\<close> is the fixed text of the catch branch.
\<close>

datatype FeedbackType = success | error | neutral

datatype FeedbackMsg =
  Explained string
  | Incorrect string
  | Evaluated string int
  | CommunicationFailed

text \<open>
  The \<^verbatim>\<open>useState\<close> variables of the \<^verbatim>\<open>Session\<close> component, in the order of the source.
  \<open>concepts_st\<close> is the state variable \<^verbatim>\<open>concepts\<close> (initialised from \<^verbatim>\<open>data.concepts\<close>);
  \<open>deepDiveData\<close> is the \<^verbatim>\<open>Record<string, DeepDiveContent>\<close> cache: the map holds the own
  properties of the object, which starts as \<^verbatim>\<open>{}\<close>.
\<close>

record Session =
  viewMode :: ViewMode
  concepts_st :: "StudyConcept list"
  mobileView :: MobileView
  activeConceptId :: "string option"
  conceptMode :: ConceptMode
  deepDiveData :: "string \<rightharpoonup> DeepDivePayload"
  loadingDeepDive :: bool
  challengeQ :: "string option"
  challengeAnswer :: string
  challengeFeedback :: "(bool \<times> string) option"
  loadingChallenge :: bool
  currentQIndex :: nat
  stats :: PlayerStats
  history :: "HistorySample list"
  selectedOption :: "nat option"
  socraticInput :: string
  feedback :: "(FeedbackType \<times> FeedbackMsg) option"
  isEvaluating :: bool
  quizComplete :: bool

definition initialSession :: "StudySessionData \<Rightarrow> Session" where
  "initialSession data =
     \<lparr> viewMode = DATA_CORE,
       concepts_st = concepts data,
       mobileView = LIST,
       activeConceptId = None,
       conceptMode = OVERVIEW,
       deepDiveData = Map.empty,
       loadingDeepDive = False,
       challengeQ = None,
       challengeAnswer = [],
       challengeFeedback = None,
       loadingChallenge = False,
       currentQIndex = 0,
       stats = \<lparr> syncedNodes = 0, stability = 50, streak = 0 \<rparr>,
       history = [\<lparr> time = 0, sample_stability = 50 \<rparr>],
       selectedOption = None,
       socraticInput = [],
       feedback = None,
       isEvaluating = False,
       quizComplete = False \<rparr>"

text \<open>\<^verbatim>\<open>data.questions[currentQIndex]\<close>, which is \<^verbatim>\<open>undefined\<close> out of range.\<close>

definition currentQ :: "StudySessionData \<Rightarrow> Session \<Rightarrow> GameQuestion option" where
  "currentQ data st =
     (if currentQIndex st < length (questions data)
      then Some (questions data ! currentQIndex st) else None)"

text \<open>\<^verbatim>\<open>concepts.find(c => c.id === activeConceptId)\<close>.\<close>

definition activeConcept :: "Session \<Rightarrow> StudyConcept option" where
  "activeConcept st = find (\<lambda>c. Some (c_id c) = activeConceptId st) (concepts_st st)"

subsection \<open>The stability update\<close>

text \<open>
  \<^verbatim>\<open>updateStability\<close> reads \<^verbatim>\<open>prev\<close> from the functional state update, so the stats are
  those of the state it is applied to, but \<^verbatim>\<open>history\<close> from the closure of the render in
  which the calling handler was created. The captured history is therefore a parameter:
  a synchronous handler passes the history of the current state, the continuation of an
  asynchronous handler the history of the state in which the handler was started.
\<close>

definition updateStability :: "real \<Rightarrow> HistorySample list \<Rightarrow> Session \<Rightarrow> Session" where
  "updateStability delta hist st =
     (let prev = stats st;
          newStability = max 0 (min 100 (stability prev + delta));
          appended = hist @ [\<lparr> time = length hist, sample_stability = newStability \<rparr>];
          newHistory = (if length appended > 20 then tl appended else appended)
      in st \<lparr> history := newHistory,
              stats := prev \<lparr> stability := newStability,
                              streak := (if delta > 0 then streak prev + 1 else 0) \<rparr> \<rparr>)"

text \<open>The clamp of the specification, written from its words: \<open>clamp x lo hi\<close>.\<close>

definition clamp :: "real \<Rightarrow> real \<Rightarrow> real \<Rightarrow> real" where
  "clamp x lo hi = (if x < lo then lo else if hi < x then hi else x)"

subsection \<open>External calls and their continuations\<close>

text \<open>
  Every handler that awaits the generation client is split at its \<^verbatim>\<open>await\<close>: the part
  before it runs on the state of the click and returns the call it issues together with
  what the continuation keeps from its closure; the part after it (\<open>_resume\<close>) runs on
  the state in which the promise settles, with the client's result, \<open>Inl\<close> for a
  rejected promise. Between the two, other handlers may run. \<^verbatim>\<open>console.error\<close> has no
  effect on the state and is left out; the props \<^verbatim>\<open>context\<close> and \<^verbatim>\<open>apiKey\<close> are fixed and
  are not arguments of the calls.
\<close>

datatype failure =
  Rejected string
  | SyntaxError
  | TypeError
  | Error string

datatype call =
  GenerateDeepDive string
  | GenerateConceptChallenge string
  | EvaluateChallenge string string
  | EvaluateSocraticAnswer string string

datatype continuation =
  AwaitDeepDive string
  | AwaitConceptChallenge
  | AwaitEvaluateChallenge string "HistorySample list"
  | AwaitSocratic "HistorySample list"

subsection \<open>Data core interactions\<close>

definition handleConceptSelect :: "string \<Rightarrow> Session \<Rightarrow> Session" where
  "handleConceptSelect cid st =
     st \<lparr> activeConceptId := Some cid,
          conceptMode := OVERVIEW,
          challengeQ := None,
          challengeAnswer := [],
          challengeFeedback := None,
          mobileView := FOCUS \<rparr>"

text \<open>
  The test \<^verbatim>\<open>if (deepDiveData[activeConcept.id])\<close> reads a property of a plain object: an
  own property gives its value, which passes the test unless it is falsy; without an own
  property the read goes to \<^verbatim>\<open>Object.prototype\<close>, whose properties (listed below, with those
  of Annex B that every browser has) are functions or objects, so truthy; any other name
  reads as \<^verbatim>\<open>undefined\<close>.
\<close>

definition objectPrototypeProperties :: "string list" where
  "objectPrototypeProperties =
     [''constructor'', ''hasOwnProperty'', ''isPrototypeOf'', ''propertyIsEnumerable'',
      ''toLocaleString'', ''toString'', ''valueOf'', ''__proto__'',
      ''__defineGetter__'', ''__defineSetter__'', ''__lookupGetter__'', ''__lookupSetter__'']"

definition cacheTruthy :: "(string \<rightharpoonup> DeepDivePayload) \<Rightarrow> string \<Rightarrow> bool" where
  "cacheTruthy cache cid =
     (case cache cid of
        Some payload \<Rightarrow> payload \<noteq> Falsy
      | None \<Rightarrow> cid \<in> set objectPrototypeProperties)"

definition fetchDeepDive :: "Session \<Rightarrow> Session \<times> (call \<times> continuation) option" where
  "fetchDeepDive st =
     (case activeConcept st of
        None \<Rightarrow> (st, None)
      | Some ac \<Rightarrow>
          if cacheTruthy (deepDiveData st) (c_id ac)
          then (st \<lparr> conceptMode := DEEP_DIVE \<rparr>, None)
          else
            (st \<lparr> loadingDeepDive := True \<rparr>,
             Some (GenerateDeepDive (c_term ac), AwaitDeepDive (c_id ac))))"

definition fetchDeepDive_resume ::
  "string \<Rightarrow> failure + DeepDivePayload \<Rightarrow> Session \<Rightarrow> Session" where
  "fetchDeepDive_resume cid result st =
     (case result of
        Inr content \<Rightarrow>
          st \<lparr> deepDiveData := (deepDiveData st)(cid \<mapsto> content),
               conceptMode := DEEP_DIVE,
               loadingDeepDive := False \<rparr>
      | Inl e \<Rightarrow> st \<lparr> loadingDeepDive := False \<rparr>)"

definition initSyncProtocol :: "Session \<Rightarrow> Session \<times> (call \<times> continuation) option" where
  "initSyncProtocol st =
     (case activeConcept st of
        None \<Rightarrow> (st, None)
      | Some ac \<Rightarrow>
          (st \<lparr> loadingChallenge := True,
                conceptMode := SYNC_PROTOCOL,
                challengeQ := None,
                challengeAnswer := [],
                challengeFeedback := None \<rparr>,
           Some (GenerateConceptChallenge (c_term ac), AwaitConceptChallenge)))"

definition initSyncProtocol_resume :: "failure + string \<Rightarrow> Session \<Rightarrow> Session" where
  "initSyncProtocol_resume result st =
     (case result of
        Inr q \<Rightarrow> st \<lparr> challengeQ := Some q, loadingChallenge := False \<rparr>
      | Inl e \<Rightarrow>
          st \<lparr> challengeQ := Some ''Error generating protocol. Try again.'',
               loadingChallenge := False \<rparr>)"

text \<open>
  The guard \<^verbatim>\<open>!activeConcept || !challengeQ || !challengeAnswer\<close>: \<^verbatim>\<open>challengeQ\<close> is falsy
  when it is \<^verbatim>\<open>null\<close> or the empty string, \<^verbatim>\<open>challengeAnswer\<close> when it is empty.
\<close>

definition submitSyncChallenge :: "Session \<Rightarrow> Session \<times> (call \<times> continuation) option" where
  "submitSyncChallenge st =
     (case activeConcept st of
        None \<Rightarrow> (st, None)
      | Some ac \<Rightarrow>
          (case challengeQ st of
             None \<Rightarrow> (st, None)
           | Some q \<Rightarrow>
               if q = [] \<or> challengeAnswer st = [] then (st, None)
               else (st \<lparr> loadingChallenge := True \<rparr>,
                     Some (EvaluateChallenge q (challengeAnswer st),
                           AwaitEvaluateChallenge (c_id ac) (history st)))))"

definition submitSyncChallenge_resume ::
  "string \<Rightarrow> HistorySample list \<Rightarrow> failure + ChallengeResult \<Rightarrow> Session \<Rightarrow> Session" where
  "submitSyncChallenge_resume cid hist result st =
     (case result of
        Inr r \<Rightarrow>
          (let st1 = st \<lparr> challengeFeedback := Some (passed r, cr_feedback r) \<rparr>;
               st2 =
                 (if passed r then
                    (let marked = st1 \<lparr> concepts_st :=
                            map (\<lambda>c. if c_id c = cid then c \<lparr> mastered := True \<rparr> else c)
                              (concepts_st st1) \<rparr>;
                         upd = updateStability 10 hist marked
                     in upd \<lparr> stats := (stats upd) \<lparr> syncedNodes := syncedNodes (stats upd) + 1 \<rparr> \<rparr>)
                  else updateStability (- 5) hist st1)
           in st2 \<lparr> loadingChallenge := False \<rparr>)
      | Inl e \<Rightarrow> st \<lparr> loadingChallenge := False \<rparr>)"

subsection \<open>Quiz interactions\<close>

text \<open>
  \<^verbatim>\<open>handleChoiceSubmit\<close> reads \<^verbatim>\<open>currentQ.correctOptionIndex\<close> outside any \<^verbatim>\<open>try\<close>: with
  \<^verbatim>\<open>currentQ\<close> undefined it throws a TypeError. \<^verbatim>\<open>selectedOption === correctOptionIndex\<close>
  is false when the question has no \<^verbatim>\<open>correctOptionIndex\<close>.
\<close>

definition handleChoiceSubmit :: "StudySessionData \<Rightarrow> Session \<Rightarrow> failure + Session" where
  "handleChoiceSubmit data st =
     (case selectedOption st of
        None \<Rightarrow> Inr st
      | Some sel \<Rightarrow>
          (case currentQ data st of
             None \<Rightarrow> Inl TypeError
           | Some q \<Rightarrow>
               if correctOptionIndex q = Some (int sel) then
                 Inr (updateStability STABILITY_BONUS (history st)
                        (st \<lparr> feedback := Some (success, Explained (explanation q)) \<rparr>))
               else
                 Inr (updateStability (- STABILITY_PENALTY) (history st)
                        (st \<lparr> feedback := Some (error, Incorrect (explanation q)) \<rparr>))))"

text \<open>
  \<^verbatim>\<open>String.prototype.trim\<close> on the characters of the model (code units below 256): the
  white space and line terminators among them are U+0009 to U+000D, U+0020 and U+00A0.
\<close>

definition isWhiteSpace :: "char \<Rightarrow> bool" where
  "isWhiteSpace c =
     (c \<in> set [CHR 0x09, CHR 0x0A, CHR 0x0B, CHR 0x0C, CHR 0x0D, CHR 0x20, CHR 0xA0])"

definition trim :: "string \<Rightarrow> string" where
  "trim s = rev (dropWhile isWhiteSpace (rev (dropWhile isWhiteSpace s)))"

text \<open>
  In \<^verbatim>\<open>handleSocraticSubmit\<close> the argument \<^verbatim>\<open>currentQ.question\<close> is evaluated inside the
  \<^verbatim>\<open>try\<close>: with \<^verbatim>\<open>currentQ\<close> undefined the catch branch runs at once and no call is issued.
\<close>

definition handleSocraticSubmit ::
  "StudySessionData \<Rightarrow> Session \<Rightarrow> Session \<times> (call \<times> continuation) option" where
  "handleSocraticSubmit data st =
     (if trim (socraticInput st) = [] then (st, None)
      else
        (case currentQ data st of
           None \<Rightarrow>
             (st \<lparr> feedback := Some (error, CommunicationFailed), isEvaluating := False \<rparr>, None)
         | Some q \<Rightarrow>
             (st \<lparr> isEvaluating := True \<rparr>,
              Some (EvaluateSocraticAnswer (question q) (socraticInput st),
                    AwaitSocratic (history st)))))"

definition handleSocraticSubmit_resume ::
  "HistorySample list \<Rightarrow> failure + SocraticEvaluation \<Rightarrow> Session \<Rightarrow> Session" where
  "handleSocraticSubmit_resume hist result st =
     (case result of
        Inr evaluation \<Rightarrow>
          (let pass = ev_score evaluation \<ge> 70;
               st1 = st \<lparr> feedback :=
                        Some (if pass then success else error,
                              Evaluated (ev_feedback evaluation) (ev_score evaluation)) \<rparr>;
               st2 = updateStability
                       (if pass then STABILITY_BONUS * 1.5 else - STABILITY_PENALTY) hist st1
           in st2 \<lparr> isEvaluating := False \<rparr>)
      | Inl e \<Rightarrow>
          st \<lparr> feedback := Some (error, CommunicationFailed), isEvaluating := False \<rparr>)"

definition nextQuestion :: "StudySessionData \<Rightarrow> Session \<Rightarrow> Session" where
  "nextQuestion data st =
     (if int (currentQIndex st) < int (length (questions data)) - 1
      then st \<lparr> currentQIndex := currentQIndex st + 1,
                selectedOption := None,
                socraticInput := [],
                feedback := None \<rparr>
      else st \<lparr> quizComplete := True \<rparr>)"

subsection \<open>The session as a transition system\<close>

text \<open>
  The user actions of the component and the settling of an outstanding call. The handlers
  are taken as callable in every state, also where the rendered button is disabled, so
  every trace of the component is a trace of the model. \<open>Settle n r\<close> settles the
  \<open>n\<close>-th outstanding call with the client's result \<open>r\<close>; outstanding calls settle in
  any order.
\<close>

datatype reply =
  DeepDiveReply "failure + DeepDivePayload"
  | ConceptChallengeReply "failure + string"
  | EvaluateChallengeReply "failure + ChallengeResult"
  | SocraticReply "failure + SocraticEvaluation"

datatype event =
  ConceptSelect string
  | ShowOverview
  | FetchDeepDive
  | InitSyncProtocol
  | SetChallengeAnswer string
  | SubmitSyncChallenge
  | SelectOption nat
  | SetSocraticInput string
  | ChoiceSubmit
  | SocraticSubmit
  | NextQuestion
  | ShowDataCore
  | ShowSimulation
  | ReturnToDataCore
  | MobileBack
  | Settle nat reply

record System =
  session :: Session
  pending :: "continuation list"
  issued :: "call list"

definition initialSystem :: "StudySessionData \<Rightarrow> System" where
  "initialSystem data = \<lparr> session = initialSession data, pending = [], issued = [] \<rparr>"

fun start :: "Session \<times> (call \<times> continuation) option \<Rightarrow> System \<Rightarrow> System" where
  "start (st, None) sys = sys \<lparr> session := st \<rparr>"
| "start (st, Some (c, k)) sys =
     sys \<lparr> session := st, pending := pending sys @ [k], issued := issued sys @ [c] \<rparr>"

fun resume :: "continuation \<Rightarrow> reply \<Rightarrow> Session \<Rightarrow> Session option" where
  "resume (AwaitDeepDive cid) (DeepDiveReply r) st = Some (fetchDeepDive_resume cid r st)"
| "resume AwaitConceptChallenge (ConceptChallengeReply r) st =
     Some (initSyncProtocol_resume r st)"
| "resume (AwaitEvaluateChallenge cid hist) (EvaluateChallengeReply r) st =
     Some (submitSyncChallenge_resume cid hist r st)"
| "resume (AwaitSocratic hist) (SocraticReply r) st =
     Some (handleSocraticSubmit_resume hist r st)"
| "resume k r st = None"

text \<open>
  An option button runs \<^verbatim>\<open>!feedback && setSelectedOption(idx)\<close>. A TypeError thrown by
  \<^verbatim>\<open>handleChoiceSubmit\<close> leaves the state as it was: it is thrown before any setter runs.
  A \<open>Settle\<close> that names no outstanding call, or a reply of another operation, is not an
  event of the component and changes nothing.
\<close>

fun step :: "StudySessionData \<Rightarrow> event \<Rightarrow> System \<Rightarrow> System" where
  "step data (ConceptSelect cid) sys = sys \<lparr> session := handleConceptSelect cid (session sys) \<rparr>"
| "step data ShowOverview sys = sys \<lparr> session := (session sys) \<lparr> conceptMode := OVERVIEW \<rparr> \<rparr>"
| "step data FetchDeepDive sys = start (fetchDeepDive (session sys)) sys"
| "step data InitSyncProtocol sys = start (initSyncProtocol (session sys)) sys"
| "step data (SetChallengeAnswer a) sys =
     sys \<lparr> session := (session sys) \<lparr> challengeAnswer := a \<rparr> \<rparr>"
| "step data SubmitSyncChallenge sys = start (submitSyncChallenge (session sys)) sys"
| "step data (SelectOption idx) sys =
     (if feedback (session sys) = None
      then sys \<lparr> session := (session sys) \<lparr> selectedOption := Some idx \<rparr> \<rparr>
      else sys)"
| "step data (SetSocraticInput a) sys =
     sys \<lparr> session := (session sys) \<lparr> socraticInput := a \<rparr> \<rparr>"
| "step data ChoiceSubmit sys =
     (case handleChoiceSubmit data (session sys) of
        Inl e \<Rightarrow> sys
      | Inr st \<Rightarrow> sys \<lparr> session := st \<rparr>)"
| "step data SocraticSubmit sys = start (handleSocraticSubmit data (session sys)) sys"
| "step data NextQuestion sys = sys \<lparr> session := nextQuestion data (session sys) \<rparr>"
| "step data ShowDataCore sys =
     sys \<lparr> session := (session sys) \<lparr> viewMode := DATA_CORE, mobileView := LIST \<rparr> \<rparr>"
| "step data ShowSimulation sys =
     sys \<lparr> session := (session sys) \<lparr> viewMode := SIMULATION, mobileView := FOCUS \<rparr> \<rparr>"
| "step data ReturnToDataCore sys =
     sys \<lparr> session := (session sys) \<lparr> viewMode := DATA_CORE \<rparr> \<rparr>"
| "step data MobileBack sys = sys \<lparr> session := (session sys) \<lparr> mobileView := LIST \<rparr> \<rparr>"
| "step data (Settle n r) sys =
     (if n < length (pending sys) then
        (case resume (pending sys ! n) r (session sys) of
           None \<Rightarrow> sys
         | Some st \<Rightarrow>
             sys \<lparr> session := st,
                   pending := take n (pending sys) @ drop (Suc n) (pending sys) \<rparr>)
      else sys)"

fun run :: "StudySessionData \<Rightarrow> event list \<Rightarrow> System \<Rightarrow> System" where
  "run data [] sys = sys"
| "run data (e # es) sys = run data es (step data e sys)"

section \<open>Generation client (src/services/geminiService.ts)\<close>

text \<open>
  What \<^verbatim>\<open>ai.models.generateContent\<close> gives back is the environment's choice and the input
  of the model: \<open>Inl\<close> when the promise is rejected, otherwise \<^verbatim>\<open>response.text\<close>, which is
  a string or \<^verbatim>\<open>undefined\<close>. \<^verbatim>\<open>JSON.parse(response.text) as T\<close> is a parameter \<open>parse\<close>
  with the declared result type, \<open>None\<close> where \<^verbatim>\<open>JSON.parse\<close> throws a SyntaxError; the
  cast is unchecked in the source, so a text that parses is taken to have type \<open>T\<close>; for
  \<^verbatim>\<open>generateDeepDive\<close> the result is a \<open>DeepDivePayload\<close>, which has the values outside \<open>T\<close> too.
  \<^verbatim>\<open>if (response.text)\<close> is false for \<^verbatim>\<open>undefined\<close> and for the empty string.
\<close>

type_synonym response = "failure + string option"

definition generateGameSession ::
  "(string \<Rightarrow> StudySessionData option) \<Rightarrow> response \<Rightarrow> failure + StudySessionData" where
  "generateGameSession parse response =
     (case response of
        Inl e \<Rightarrow> Inl e
      | Inr None \<Rightarrow> Inl (Error ''No response text generated'')
      | Inr (Some s) \<Rightarrow>
          if s = [] then Inl (Error ''No response text generated'')
          else
            (case parse s of
               None \<Rightarrow> Inl SyntaxError
             | Some data \<Rightarrow>
                 Inr (data \<lparr> concepts := map (\<lambda>c. c \<lparr> mastered := False \<rparr>) (concepts data) \<rparr>)))"

definition generateDeepDive ::
  "(string \<Rightarrow> DeepDivePayload option) \<Rightarrow> response \<Rightarrow> failure + DeepDivePayload" where
  "generateDeepDive parse response =
     (case response of
        Inl e \<Rightarrow> Inl e
      | Inr None \<Rightarrow> Inl (Error ''Deep dive generation failed'')
      | Inr (Some s) \<Rightarrow>
          if s = [] then Inl (Error ''Deep dive generation failed'')
          else (case parse s of None \<Rightarrow> Inl SyntaxError | Some content \<Rightarrow> Inr content))"

text \<open>\<^verbatim>\<open>return response.text || "Explain this concept in your own words."\<close>: no parsing.\<close>

definition generateConceptChallenge :: "response \<Rightarrow> failure + string" where
  "generateConceptChallenge response =
     (case response of
        Inl e \<Rightarrow> Inl e
      | Inr None \<Rightarrow> Inr ''Explain this concept in your own words.''
      | Inr (Some s) \<Rightarrow>
          if s = [] then Inr ''Explain this concept in your own words.'' else Inr s)"

definition evaluateChallenge ::
  "(string \<Rightarrow> ChallengeResult option) \<Rightarrow> response \<Rightarrow> failure + ChallengeResult" where
  "evaluateChallenge parse response =
     (case response of
        Inl e \<Rightarrow> Inl e
      | Inr None \<Rightarrow> Inl (Error ''Evaluation failed'')
      | Inr (Some s) \<Rightarrow>
          if s = [] then Inl (Error ''Evaluation failed'')
          else (case parse s of None \<Rightarrow> Inl SyntaxError | Some result \<Rightarrow> Inr result))"

definition evaluateSocraticAnswer ::
  "(string \<Rightarrow> SocraticEvaluation option) \<Rightarrow> response \<Rightarrow> failure + SocraticEvaluation" where
  "evaluateSocraticAnswer parse response =
     (case response of
        Inl e \<Rightarrow> Inl e
      | Inr None \<Rightarrow> Inr \<lparr> ev_score = 0, ev_feedback = ''Analysis failed.'' \<rparr>
      | Inr (Some s) \<Rightarrow>
          if s = [] then Inr \<lparr> ev_score = 0, ev_feedback = ''Analysis failed.'' \<rparr>
          else (case parse s of None \<Rightarrow> Inl SyntaxError | Some evaluation \<Rightarrow> Inr evaluation))"

text \<open>
  The specification's "no usable payload": the response text is missing, empty, or not
  parseable. For \<^verbatim>\<open>generateConceptChallenge\<close>, whose result is the text itself, only the
  first two apply.
\<close>

definition noText :: "string option \<Rightarrow> bool" where
  "noText t = (case t of None \<Rightarrow> True | Some s \<Rightarrow> s = [])"

definition noUsablePayload :: "(string \<Rightarrow> 'a option) \<Rightarrow> string option \<Rightarrow> bool" where
  "noUsablePayload parse t = (case t of None \<Rightarrow> True | Some s \<Rightarrow> s = [] \<or> parse s = None)"

text \<open>
  The counts the specification gives for a generated session: 6 to 8 concepts and
  exactly 3 questions, 2 of them CONCEPT_CHECK and 1 SOCRATIC_DEFENSE.
\<close>

definition meetsCounts :: "StudySessionData \<Rightarrow> bool" where
  "meetsCounts d =
     (6 \<le> length (concepts d) \<and> length (concepts d) \<le> 8
      \<and> length (questions d) = 3
      \<and> length (filter (\<lambda>q. q_type q = CONCEPT_CHECK) (questions d)) = 2
      \<and> length (filter (\<lambda>q. q_type q = SOCRATIC_DEFENSE) (questions d)) = 1)"

section \<open>Ingest (the \<^verbatim>\<open>Ingest\<close> component in src/components/Session.tsx)\<close>

text \<open>
  The browser's \<^verbatim>\<open>File\<close> with the two properties the handler reads, and the state variables
  \<^verbatim>\<open>text\<close> and \<^verbatim>\<open>loadedFile\<close>. \<^verbatim>\<open>split(',')[1]\<close> is \<^verbatim>\<open>undefined\<close> for a string without comma.
\<close>

record File =
  file_name :: string
  file_type :: string

record LoadedFile =
  lf_name :: string
  lf_type :: string
  lf_data :: "string option"

record Ingest =
  ingest_text :: string
  dragActive :: bool
  loadedFile :: "LoadedFile option"

datatype FileEffect =
  ReadAsText
  | ReadAsDataURL
  | Alert string

definition endsWith :: "string \<Rightarrow> string \<Rightarrow> bool" where
  "endsWith s suffix =
     (length suffix \<le> length s \<and> drop (length s - length suffix) s = suffix)"

definition supported :: "File \<Rightarrow> bool" where
  "supported file =
     (file_type file = ''text/plain'' \<or> endsWith (file_name file) ''.md''
      \<or> endsWith (file_name file) ''.txt'' \<or> file_type file = ''application/pdf'')"

text \<open>
  The synchronous part of \<^verbatim>\<open>handleFile\<close>: the state it leaves and what it starts (a
  \<^verbatim>\<open>FileReader\<close> read, or the alert). The \<^verbatim>\<open>onload\<close> callbacks run later, with the
  reader's result.
\<close>

definition handleFile :: "File \<Rightarrow> Ingest \<Rightarrow> Ingest \<times> FileEffect" where
  "handleFile file st =
     (let cleared = st \<lparr> ingest_text := [] \<rparr> in
      if file_type file = ''text/plain'' \<or> endsWith (file_name file) ''.md''
         \<or> endsWith (file_name file) ''.txt''
      then (cleared \<lparr> loadedFile := None \<rparr>, ReadAsText)
      else if file_type file = ''application/pdf''
      then (cleared, ReadAsDataURL)
      else (cleared, Alert ''Currently supported formats: PDF, TXT, MD''))"

definition onloadText :: "string option \<Rightarrow> Ingest \<Rightarrow> Ingest" where
  "onloadText result st =
     (case result of
        None \<Rightarrow> st
      | Some s \<Rightarrow> if s = [] then st else st \<lparr> ingest_text := s \<rparr>)"

definition splitComma1 :: "string \<Rightarrow> string option" where
  "splitComma1 s =
     (case dropWhile (\<lambda>c. c \<noteq> CHR '','') s of
        [] \<Rightarrow> None
      | comma # rest \<Rightarrow> Some (takeWhile (\<lambda>c. c \<noteq> CHR '','') rest))"

definition onloadDataURL :: "File \<Rightarrow> string option \<Rightarrow> Ingest \<Rightarrow> Ingest" where
  "onloadDataURL file result st =
     (case result of
        None \<Rightarrow> st
      | Some s \<Rightarrow>
          if s = [] then st
          else st \<lparr> loadedFile :=
                 Some \<lparr> lf_name = file_name file, lf_type = file_type file,
                        lf_data = splitComma1 s \<rparr> \<rparr>)"

section \<open>Auxiliary notions for the properties\<close>

text \<open>The history a continuation keeps from the render in which its handler started.\<close>

fun captured :: "continuation \<Rightarrow> HistorySample list" where
  "captured (AwaitEvaluateChallenge cid hist) = hist"
| "captured (AwaitSocratic hist) = hist"
| "captured k = []"

definition bounded :: "System \<Rightarrow> bool" where
  "bounded sys =
     (length (history (session sys)) \<le> 20
      \<and> list_all (\<lambda>k. length (captured k) \<le> 20) (pending sys))"


text \<open>A small session used to evaluate the handlers: one concept and two questions.\<close>

definition exampleData :: StudySessionData where
  "exampleData =
     \<lparr> title = ''T'', summary = ''S'',
       concepts =
         [\<lparr> c_id = ''c1'', c_term = ''entanglement'', c_definition = ''d'',
            c_analogy = ''a'', mastered = False \<rparr>],
       questions =
         [\<lparr> q_id = ''q1'', q_type = CONCEPT_CHECK, question = ''Which?'',
            q_options = Some [''w'', ''x'', ''y'', ''z''], correctOptionIndex = Some 1,
            explanation = ''because'', difficulty = 3 \<rparr>,
          \<lparr> q_id = ''q2'', q_type = SOCRATIC_DEFENSE, question = ''Why?'',
            q_options = None, correctOptionIndex = None,
            explanation = ''since'', difficulty = 7 \<rparr>] \<rparr>"


text \<open>
  A response text and what \<^verbatim>\<open>JSON.parse\<close> returns on it, cast to \<^verbatim>\<open>StudySessionData\<close>: the
  payload has one concept, which the service marked as mastered, and no question.
  \<open>fixtureParse\<close> is \<^verbatim>\<open>JSON.parse\<close> on this text; every other text it rejects, as
  \<^verbatim>\<open>JSON.parse\<close> rejects a text that is not JSON, and it is applied to no other JSON text.
\<close>

definition fixtureText :: string where
  \<open>fixtureText =
     ''{"title":"T","summary":"S","concepts":[{"id":"c1","term":"t","definition":"d","analogy":"a","mastered":true}],"questions":[]}''\<close>

definition fixturePayload :: StudySessionData where
  "fixturePayload =
     \<lparr> title = ''T'', summary = ''S'',
       concepts =
         [\<lparr> c_id = ''c1'', c_term = ''t'', c_definition = ''d'', c_analogy = ''a'',
            mastered = True \<rparr>],
       questions = [] \<rparr>"

definition fixtureParse :: "string \<Rightarrow> StudySessionData option" where
  "fixtureParse s = (if s = fixtureText then Some fixturePayload else None)"

text \<open>
  A run that selects the concept, starts the sync protocol, receives the challenge
  question, types an answer and submits it; and an evaluation that passes.
\<close>

definition exampleTrace :: "event list" where
  "exampleTrace =
     [ConceptSelect ''c1'', InitSyncProtocol, Settle 0 (ConceptChallengeReply (Inr ''Q?'')),
      SetChallengeAnswer ''A'', SubmitSyncChallenge]"

definition examplePass :: ChallengeResult where
  "examplePass = \<lparr> passed = True, cr_score = 90, cr_feedback = ''ok'' \<rparr>"





text \<open>
  A run that answers the first question correctly, moves on to the Socratic question, types
  an answer and submits it.
\<close>

definition socraticTrace :: "event list" where
  "socraticTrace =
     [ShowSimulation, SelectOption 1, ChoiceSubmit, NextQuestion,
      SetSocraticInput ''ok'', SocraticSubmit]"

text \<open>
  A run in which the evaluation of a sync challenge is still outstanding while the user
  answers the two quiz questions: it submits the challenge answer as \<open>exampleTrace\<close> does,
  then runs \<open>socraticTrace\<close> and receives the Socratic evaluation with score 80.
\<close>

definition staleTrace :: "event list" where
  "staleTrace =
     exampleTrace @ socraticTrace
       @ [Settle 1 (SocraticReply (Inr \<lparr> ev_score = 80, ev_feedback = ''good'' \<rparr>))]"

section \<open>Properties\<close>

lemma updateStability_stats:
  "stats (updateStability delta hist st) =
     (stats st) \<lparr> stability := max 0 (min 100 (stability (stats st) + delta)),
                  streak := (if delta > 0 then streak (stats st) + 1 else 0) \<rparr>"
  by (simp add: updateStability_def Let_def)

lemma updateStability_history:
  "history (updateStability delta hist st) =
     (let appended = hist @ [\<lparr> time = length hist,
             sample_stability = max 0 (min 100 (stability (stats st) + delta)) \<rparr>]
      in if length appended > 20 then tl appended else appended)"
  by (simp add: updateStability_def Let_def)

text \<open>
  C1. For every delta \<open>d\<close> and every state, \<^verbatim>\<open>updateStability\<close> sets the stability to
  \<open>clamp (s + d) 0 100\<close>, which lies between 0 and 100; the streak is one more than before
  when \<open>d\<close> is positive and 0 otherwise. Nothing else in the stats changes.
\<close>

theorem updateStability_clamps:
  "stability (stats (updateStability d hist st)) = clamp (stability (stats st) + d) 0 100
   \<and> 0 \<le> stability (stats (updateStability d hist st))
   \<and> stability (stats (updateStability d hist st)) \<le> 100
   \<and> streak (stats (updateStability d hist st)) = (if d > 0 then streak (stats st) + 1 else 0)
   \<and> syncedNodes (stats (updateStability d hist st)) = syncedNodes (stats st)"
  by (simp add: updateStability_stats clamp_def max_def min_def)

subsection \<open>The history buffer\<close>

lemma updateStability_length:
  "length hist \<le> 20 \<Longrightarrow> length (history (updateStability d hist st)) \<le> 20"
  by (simp add: updateStability_history Let_def)

lemma bounded_start:
  assumes "bounded sys" "length (history (fst r)) \<le> 20"
    and "\<And>c k. snd r = Some (c, k) \<Longrightarrow> length (captured k) \<le> 20"
  shows "bounded (start r sys)"
  using assms by (cases r; cases "snd r") (auto simp: bounded_def)

lemma bounded_resume:
  assumes "length (history st) \<le> 20" "length (captured k) \<le> 20" "resume k r st = Some st'"
  shows "length (history st') \<le> 20"
  using assms
  by (cases k; cases r)
     (auto simp: fetchDeepDive_resume_def initSyncProtocol_resume_def
        submitSyncChallenge_resume_def handleSocraticSubmit_resume_def Let_def
        updateStability_length updateStability_def
        split: sum.splits if_splits)

lemma list_all_remove:
  "list_all P xs \<Longrightarrow> list_all P (take n xs) \<and> list_all P (drop m xs)"
  by (auto simp: list_all_iff dest: in_set_takeD in_set_dropD)

lemma bounded_step: "bounded sys \<Longrightarrow> bounded (step data e sys)"
proof (cases e)
  case FetchDeepDive
  assume b: "bounded sys"
  show ?thesis unfolding FetchDeepDive step.simps
    by (rule bounded_start [OF b])
       (use b in \<open>auto simp: fetchDeepDive_def bounded_def split: option.splits if_splits\<close>)
next
  case InitSyncProtocol
  assume b: "bounded sys"
  show ?thesis unfolding InitSyncProtocol step.simps
    by (rule bounded_start [OF b])
       (use b in \<open>auto simp: initSyncProtocol_def bounded_def split: option.splits\<close>)
next
  case SubmitSyncChallenge
  assume b: "bounded sys"
  show ?thesis unfolding SubmitSyncChallenge step.simps
    by (rule bounded_start [OF b])
       (use b in \<open>auto simp: submitSyncChallenge_def bounded_def split: option.splits if_splits\<close>)
next
  case SocraticSubmit
  assume b: "bounded sys"
  show ?thesis unfolding SocraticSubmit step.simps
    by (rule bounded_start [OF b])
       (use b in \<open>auto simp: handleSocraticSubmit_def bounded_def split: option.splits if_splits\<close>)
next
  case ChoiceSubmit
  assume b: "bounded sys"
  then show ?thesis unfolding ChoiceSubmit
    by (auto simp: bounded_def handleChoiceSubmit_def updateStability_length
        split: option.splits sum.splits if_splits)
next
  case (Settle n r)
  assume b: "bounded sys"
  show ?thesis
  proof (cases "n < length (pending sys)")
    case False
    with b show ?thesis unfolding Settle by simp
  next
    case True
    with b have c: "length (captured (pending sys ! n)) \<le> 20"
      by (simp add: bounded_def list_all_length)
    from b have h: "length (history (session sys)) \<le> 20" by (simp add: bounded_def)
    show ?thesis
    proof (cases "resume (pending sys ! n) r (session sys)")
      case None
      with b True show ?thesis unfolding Settle by simp
    next
      case (Some st')
      from bounded_resume [OF h c Some] b True Some show ?thesis
        unfolding Settle by (simp add: bounded_def list_all_remove)
    qed
  qed
qed (auto simp: bounded_def handleConceptSelect_def nextQuestion_def)

lemma bounded_run: "bounded sys \<Longrightarrow> bounded (run data es sys)"
  by (induction es arbitrary: sys) (simp_all add: bounded_step)

lemma bounded_initial: "bounded (initialSystem data)"
  by (simp add: bounded_def initialSystem_def initialSession_def)

lemma max_min_clamp: "max 0 (min 100 x) = clamp x 0 100"
  by (simp add: clamp_def max_def min_def)

text \<open>
  The bound of the history buffer. \<^verbatim>\<open>updateStability\<close> leaves the history \<open>hist\<close> that its
  closure holds with one sample \<open>\<lparr>time = length hist, stability'\<rparr>\<close> appended, and without its
  oldest entry when that makes more than 20 entries. A history of at most 20 samples stays
  at most 20 long, and in every run of the session from its initial state the buffer
  holds at most 20 samples. For a handler that awaits no call \<open>hist\<close> is the buffer of the
  session; for the continuation of an awaited call it is the buffer of the click.
\<close>

theorem history_capped_at_20:
  "history (updateStability d hist st) =
     (let sample = \<lparr> time = length hist,
                      sample_stability = clamp (stability (stats st) + d) 0 100 \<rparr>
      in if length hist < 20 then hist @ [sample] else tl (hist @ [sample]))
   \<and> (length hist \<le> 20 \<longrightarrow> length (history (updateStability d hist st)) \<le> 20)
   \<and> (length hist = 20 \<longrightarrow>
        history (updateStability d hist st) =
          tl hist @ [\<lparr> time = 20, sample_stability = clamp (stability (stats st) + d) 0 100 \<rparr>])
   \<and> length (history (session (run data es (initialSystem data)))) \<le> 20"
proof -
  have a: "history (updateStability d hist st) =
     (let sample = \<lparr> time = length hist,
                      sample_stability = clamp (stability (stats st) + d) 0 100 \<rparr>
      in if length hist < 20 then hist @ [sample] else tl (hist @ [sample]))"
    by (simp add: updateStability_history Let_def max_min_clamp)
  have b: "length hist \<le> 20 \<longrightarrow> length (history (updateStability d hist st)) \<le> 20"
    by (simp add: updateStability_length)
  have c: "length hist = 20 \<longrightarrow>
        history (updateStability d hist st) =
          tl hist @ [\<lparr> time = 20, sample_stability = clamp (stability (stats st) + d) 0 100 \<rparr>]"
  proof
    assume l: "length hist = 20"
    then obtain x xs where "hist = x # xs" by (cases hist) auto
    with l a show "history (updateStability d hist st) =
          tl hist @ [\<lparr> time = 20, sample_stability = clamp (stability (stats st) + d) 0 100 \<rparr>]"
      by (simp add: Let_def)
  qed
  have "bounded (run data es (initialSystem data))"
    by (rule bounded_run [OF bounded_initial])
  then have e: "length (history (session (run data es (initialSystem data)))) \<le> 20"
    by (simp add: bounded_def)
  from a b c e show ?thesis by blast
qed

theorem history_capped_at_20_witness:
  "length (replicate 20 \<lparr> time = 0, sample_stability = 50 \<rparr>) = 20
   \<and> history (updateStability 10 (replicate 20 \<lparr> time = 0, sample_stability = 50 \<rparr>)
        (initialSession exampleData)) =
       replicate 19 \<lparr> time = 0, sample_stability = 50 \<rparr> @ [\<lparr> time = 20, sample_stability = 60 \<rparr>]
   \<and> length (history (updateStability 10 (replicate 20 \<lparr> time = 0, sample_stability = 50 \<rparr>)
        (initialSession exampleData))) \<le> 20"
  using history_capped_at_20 [of 10 "replicate 20 \<lparr> time = 0, sample_stability = 50 \<rparr>"
      "initialSession exampleData" exampleData "[]"]
  by (simp add: initialSession_def clamp_def numeral_eq_Suc)

lemma staleTrace_run:
  "run exampleData staleTrace (initialSystem exampleData) =
     \<lparr> session = (initialSession exampleData)
         \<lparr> activeConceptId := Some ''c1'', conceptMode := SYNC_PROTOCOL,
           challengeQ := Some ''Q?'', challengeAnswer := ''A'', loadingChallenge := True,
           viewMode := SIMULATION, mobileView := FOCUS, currentQIndex := 1,
           socraticInput := ''ok'', isEvaluating := False,
           feedback := Some (success, Evaluated ''good'' 80),
           history := [\<lparr> time = 0, sample_stability = 50 \<rparr>,
                       \<lparr> time = 1, sample_stability = 60 \<rparr>,
                       \<lparr> time = 2, sample_stability = 75 \<rparr>],
           stats := \<lparr> syncedNodes = 0, stability = 75, streak = 2 \<rparr> \<rparr>,
       pending = [AwaitEvaluateChallenge ''c1'' [\<lparr> time = 0, sample_stability = 50 \<rparr>]],
       issued = [GenerateConceptChallenge ''entanglement'', EvaluateChallenge ''Q?'' ''A'',
                 EvaluateSocraticAnswer ''Why?'' ''ok''] \<rparr>"
  by (simp add: staleTrace_def exampleTrace_def socraticTrace_def
        initialSystem_def initialSession_def exampleData_def
        handleConceptSelect_def initSyncProtocol_def initSyncProtocol_resume_def
        submitSyncChallenge_def activeConcept_def
        handleChoiceSubmit_def currentQ_def updateStability_def Let_def nextQuestion_def
        handleSocraticSubmit_def handleSocraticSubmit_resume_def trim_def isWhiteSpace_def
        STABILITY_BONUS_def)

text \<open>
  C4 holds of the bound but not of the appending, by a stale closure: \<^verbatim>\<open>updateStability\<close>
  takes the stats from the functional update but \<^verbatim>\<open>history\<close> from the render in which the
  handler was created, so the continuation of an awaited call writes the history of the
  click, plus one sample, over everything appended since. In the run \<open>staleTrace\<close> the
  buffer holds three samples while the challenge evaluation is outstanding; when it
  settles, the buffer is the one sample of the click and the new one, with time 1.
\<close>

theorem stale_history_loses_samples:
  "history (session (run exampleData staleTrace (initialSystem exampleData))) =
     [\<lparr> time = 0, sample_stability = 50 \<rparr>, \<lparr> time = 1, sample_stability = 60 \<rparr>,
      \<lparr> time = 2, sample_stability = 75 \<rparr>]
   \<and> pending (run exampleData staleTrace (initialSystem exampleData)) =
       [AwaitEvaluateChallenge ''c1'' [\<lparr> time = 0, sample_stability = 50 \<rparr>]]
   \<and> history (session
        (step exampleData (Settle 0 (EvaluateChallengeReply (Inr examplePass)))
           (run exampleData staleTrace (initialSystem exampleData)))) =
       [\<lparr> time = 0, sample_stability = 50 \<rparr>, \<lparr> time = 1, sample_stability = 85 \<rparr>]
   \<and> stats (session
        (step exampleData (Settle 0 (EvaluateChallengeReply (Inr examplePass)))
           (run exampleData staleTrace (initialSystem exampleData)))) =
       \<lparr> syncedNodes = 1, stability = 85, streak = 3 \<rparr>"
  unfolding staleTrace_run
  by (simp add: submitSyncChallenge_resume_def examplePass_def updateStability_def Let_def
        initialSession_def)

subsection \<open>Quiz scoring\<close>

text \<open>
  C6. A submission with no selected option does nothing. With an option selected and a
  current question, the selected index equal to \<^verbatim>\<open>correctOptionIndex\<close> applies the delta
  +10 (\<open>STABILITY_BONUS\<close>), and any other selection applies -15 (\<open>- STABILITY_PENALTY\<close>).
\<close>

theorem handleChoiceSubmit_deltas:
  "(selectedOption st = None \<longrightarrow> handleChoiceSubmit data st = Inr st)
   \<and> (selectedOption st = Some sel \<and> currentQ data st = Some q
        \<and> correctOptionIndex q = Some (int sel) \<longrightarrow>
        handleChoiceSubmit data st =
          Inr (updateStability 10 (history st)
                 (st \<lparr> feedback := Some (success, Explained (explanation q)) \<rparr>))
        \<and> stability (stats (updateStability 10 (history st)
                 (st \<lparr> feedback := Some (success, Explained (explanation q)) \<rparr>)))
            = clamp (stability (stats st) + 10) 0 100)
   \<and> (selectedOption st = Some sel \<and> currentQ data st = Some q
        \<and> correctOptionIndex q \<noteq> Some (int sel) \<longrightarrow>
        handleChoiceSubmit data st =
          Inr (updateStability (- 15) (history st)
                 (st \<lparr> feedback := Some (error, Incorrect (explanation q)) \<rparr>))
        \<and> stability (stats (updateStability (- 15) (history st)
                 (st \<lparr> feedback := Some (error, Incorrect (explanation q)) \<rparr>)))
            = clamp (stability (stats st) - 15) 0 100)
   \<and> STABILITY_BONUS = 10 \<and> STABILITY_PENALTY = 15"
  by (auto simp: handleChoiceSubmit_def STABILITY_BONUS_def STABILITY_PENALTY_def
        updateStability_stats max_min_clamp)

theorem handleChoiceSubmit_deltas_witness:
  "selectedOption ((initialSession exampleData) \<lparr> selectedOption := Some 1 \<rparr>) = Some 1
   \<and> currentQ exampleData ((initialSession exampleData) \<lparr> selectedOption := Some 1 \<rparr>)
       = Some (questions exampleData ! 0)
   \<and> correctOptionIndex (questions exampleData ! 0) = Some (int 1)
   \<and> handleChoiceSubmit exampleData ((initialSession exampleData) \<lparr> selectedOption := Some 1 \<rparr>)
       = Inr (updateStability 10 [\<lparr> time = 0, sample_stability = 50 \<rparr>]
               ((initialSession exampleData)
                  \<lparr> selectedOption := Some 1,
                    feedback := Some (success, Explained ''because'') \<rparr>))
   \<and> stability (stats (updateStability 10 [\<lparr> time = 0, sample_stability = 50 \<rparr>]
               ((initialSession exampleData)
                  \<lparr> selectedOption := Some 1,
                    feedback := Some (success, Explained ''because'') \<rparr>))) = 60"
  using handleChoiceSubmit_deltas
    [of "(initialSession exampleData) \<lparr> selectedOption := Some 1 \<rparr>" exampleData 1
        "questions exampleData ! 0"]
  by (simp add: currentQ_def initialSession_def exampleData_def updateStability_stats)

text \<open>
  C7 as stated fails on an answer of white space only: the text is not empty and the
  current question is the SOCRATIC_DEFENSE one, but the handler returns at its
  \<^verbatim>\<open>!socraticInput.trim()\<close> guard, requests no evaluation and leaves the state as it was.
\<close>

theorem handleSocraticSubmit_blank_counterexample:
  "socraticInput ((initialSession exampleData) \<lparr> currentQIndex := 1, socraticInput := ''  '' \<rparr>) \<noteq> []
   \<and> map_option q_type
        (currentQ exampleData
           ((initialSession exampleData) \<lparr> currentQIndex := 1, socraticInput := ''  '' \<rparr>))
       = Some SOCRATIC_DEFENSE
   \<and> handleSocraticSubmit exampleData
        ((initialSession exampleData) \<lparr> currentQIndex := 1, socraticInput := ''  '' \<rparr>)
       = ((initialSession exampleData) \<lparr> currentQIndex := 1, socraticInput := ''  '' \<rparr>, None)"
  by (simp add: handleSocraticSubmit_def trim_def isWhiteSpace_def currentQ_def
        initialSession_def exampleData_def)

text \<open>
  C7, amended. A submission whose answer is not empty after trimming white space, with a
  current question, requests the evaluation; a submission whose trimmed answer is empty
  does nothing. When the evaluation returns, a score of at least 70 takes the pass branch
  and applies the delta +15 (\<open>STABILITY_BONUS * 1.5\<close>), and a score below 70 takes the fail
  branch and applies -15 (\<open>- STABILITY_PENALTY\<close>).
\<close>

theorem handleSocraticSubmit_threshold:
  "(trim (socraticInput st) \<noteq> [] \<and> currentQ data st = Some q \<longrightarrow>
      handleSocraticSubmit data st =
        (st \<lparr> isEvaluating := True \<rparr>,
         Some (EvaluateSocraticAnswer (question q) (socraticInput st),
               AwaitSocratic (history st))))
   \<and> (trim (socraticInput st) = [] \<longrightarrow> handleSocraticSubmit data st = (st, None))
   \<and> (ev_score ev \<ge> 70 \<longrightarrow>
        handleSocraticSubmit_resume hist (Inr ev) st' =
          (updateStability 15 hist
             (st' \<lparr> feedback :=
                     Some (success, Evaluated (ev_feedback ev) (ev_score ev)) \<rparr>))
            \<lparr> isEvaluating := False \<rparr>
        \<and> stability (stats (handleSocraticSubmit_resume hist (Inr ev) st'))
            = clamp (stability (stats st') + 15) 0 100)
   \<and> (ev_score ev < 70 \<longrightarrow>
        handleSocraticSubmit_resume hist (Inr ev) st' =
          (updateStability (- 15) hist
             (st' \<lparr> feedback :=
                     Some (error, Evaluated (ev_feedback ev) (ev_score ev)) \<rparr>))
            \<lparr> isEvaluating := False \<rparr>
        \<and> stability (stats (handleSocraticSubmit_resume hist (Inr ev) st'))
            = clamp (stability (stats st') - 15) 0 100)
   \<and> STABILITY_BONUS * 1.5 = 15 \<and> - STABILITY_PENALTY = - 15"
  by (auto simp: handleSocraticSubmit_def handleSocraticSubmit_resume_def Let_def
        STABILITY_BONUS_def STABILITY_PENALTY_def updateStability_stats max_min_clamp)

theorem handleSocraticSubmit_threshold_witness:
  "trim (socraticInput ((initialSession exampleData)
           \<lparr> currentQIndex := 1, socraticInput := '' ok '' \<rparr>)) = ''ok''
   \<and> currentQ exampleData ((initialSession exampleData)
           \<lparr> currentQIndex := 1, socraticInput := '' ok '' \<rparr>)
       = Some (questions exampleData ! 1)
   \<and> snd (handleSocraticSubmit exampleData ((initialSession exampleData)
           \<lparr> currentQIndex := 1, socraticInput := '' ok '' \<rparr>))
       = Some (EvaluateSocraticAnswer ''Why?'' '' ok '',
               AwaitSocratic [\<lparr> time = 0, sample_stability = 50 \<rparr>])
   \<and> stability (stats (handleSocraticSubmit_resume [\<lparr> time = 0, sample_stability = 50 \<rparr>]
         (Inr \<lparr> ev_score = 70, ev_feedback = ''good'' \<rparr>) (initialSession exampleData))) = 65
   \<and> stability (stats (handleSocraticSubmit_resume [\<lparr> time = 0, sample_stability = 50 \<rparr>]
         (Inr \<lparr> ev_score = 69, ev_feedback = ''weak'' \<rparr>) (initialSession exampleData))) = 35"
  using
    handleSocraticSubmit_threshold
      [of "(initialSession exampleData) \<lparr> currentQIndex := 1, socraticInput := '' ok '' \<rparr>"
          exampleData "questions exampleData ! 1"
          "\<lparr> ev_score = 70, ev_feedback = ''good'' \<rparr>"
          "[\<lparr> time = 0, sample_stability = 50 \<rparr>]" "initialSession exampleData"]
    handleSocraticSubmit_threshold
      [of "(initialSession exampleData) \<lparr> currentQIndex := 1, socraticInput := '' ok '' \<rparr>"
          exampleData "questions exampleData ! 1"
          "\<lparr> ev_score = 69, ev_feedback = ''weak'' \<rparr>"
          "[\<lparr> time = 0, sample_stability = 50 \<rparr>]" "initialSession exampleData"]
  by (simp add: trim_def isWhiteSpace_def currentQ_def initialSession_def exampleData_def
        clamp_def STABILITY_BONUS_def STABILITY_PENALTY_def updateStability_stats)

subsection \<open>Failed calls\<close>









subsection \<open>Mastery\<close>

lemma generateGameSession_Inr:
  assumes "generateGameSession parse response = Inr d"
  shows "\<exists>s p. response = Inr (Some s) \<and> s \<noteq> [] \<and> parse s = Some p
           \<and> d = p \<lparr> concepts := map (\<lambda>c. c \<lparr> mastered := False \<rparr>) (concepts p) \<rparr>"
  using assms
  by (auto simp: generateGameSession_def split: sum.splits option.splits if_splits)

lemma start_concepts:
  "concepts_st (session (start r sys)) = concepts_st (fst r)"
  by (cases r; cases "snd r") auto

lemma resume_concepts:
  assumes "resume k r st = Some st'"
  shows "concepts_st st' = concepts_st st
     \<or> (\<exists>cid hist res. k = AwaitEvaluateChallenge cid hist
           \<and> r = EvaluateChallengeReply (Inr res) \<and> passed res
           \<and> concepts_st st' =
               map (\<lambda>c. if c_id c = cid then c \<lparr> mastered := True \<rparr> else c) (concepts_st st))"
  using assms
  by (cases k; cases r)
     (auto simp: fetchDeepDive_resume_def initSyncProtocol_resume_def
        submitSyncChallenge_resume_def handleSocraticSubmit_resume_def Let_def
        updateStability_def split: sum.splits if_splits)

lemma step_concepts:
  "concepts_st (session (step data e sys)) = concepts_st (session sys)
   \<or> (\<exists>n cid hist res. e = Settle n (EvaluateChallengeReply (Inr res)) \<and> passed res
         \<and> n < length (pending sys) \<and> pending sys ! n = AwaitEvaluateChallenge cid hist
         \<and> concepts_st (session (step data e sys)) =
             map (\<lambda>c. if c_id c = cid then c \<lparr> mastered := True \<rparr> else c)
               (concepts_st (session sys)))"
proof (cases e)
  case (Settle n r)
  show ?thesis
  proof (cases "n < length (pending sys)")
    case False
    then show ?thesis unfolding Settle by simp
  next
    case True
    show ?thesis
    proof (cases "resume (pending sys ! n) r (session sys)")
      case None
      with True show ?thesis unfolding Settle by simp
    next
      case (Some st')
      from resume_concepts [OF Some] True Some show ?thesis
        unfolding Settle by auto
    qed
  qed
qed (auto simp: start_concepts handleConceptSelect_def fetchDeepDive_def initSyncProtocol_def
       submitSyncChallenge_def handleSocraticSubmit_def handleChoiceSubmit_def
       nextQuestion_def updateStability_def Let_def split: option.splits sum.splits)

lemma step_concepts_length:
  "length (concepts_st (session (step data e sys))) = length (concepts_st (session sys))"
  using step_concepts [of data e sys] by auto

lemma step_mastered_kept:
  assumes "i < length (concepts_st (session sys))" "mastered (concepts_st (session sys) ! i)"
  shows "mastered (concepts_st (session (step data e sys)) ! i)"
  using step_concepts [of data e sys] assms by auto

lemma run_mastered_kept:
  "i < length (concepts_st (session sys)) \<Longrightarrow> mastered (concepts_st (session sys) ! i)
   \<Longrightarrow> i < length (concepts_st (session (run data es sys)))
       \<and> mastered (concepts_st (session (run data es sys)) ! i)"
proof (induction es arbitrary: sys)
  case Nil
  then show ?case by simp
next
  case (Cons e es)
  have "i < length (concepts_st (session (step data e sys)))"
    using Cons.prems by (simp add: step_concepts_length)
  moreover have "mastered (concepts_st (session (step data e sys)) ! i)"
    using Cons.prems by (rule step_mastered_kept)
  ultimately show ?case using Cons.IH by simp
qed

text \<open>
  C3. A session that \<^verbatim>\<open>generateGameSession\<close> returns has every concept's \<open>mastered\<close> flag
  false, whatever the payload held, and so has the session state initialised from it. No
  step of the session changes the number of concepts; a flag that is true stays true in
  every step and every run; and a flag that rises in a step rises because that step
  settles an outstanding challenge evaluation of this concept's id with \<open>passed\<close> true.
\<close>

theorem mastered_only_rises:
  "(generateGameSession parse response = Inr d \<longrightarrow>
      list_all (\<lambda>c. \<not> mastered c) (concepts d)
      \<and> list_all (\<lambda>c. \<not> mastered c) (concepts_st (initialSession d)))
   \<and> length (concepts_st (session (step data e sys))) = length (concepts_st (session sys))
   \<and> (i < length (concepts_st (session sys)) \<and> mastered (concepts_st (session sys) ! i) \<longrightarrow>
        mastered (concepts_st (session (step data e sys)) ! i)
        \<and> mastered (concepts_st (session (run data es sys)) ! i))
   \<and> (i < length (concepts_st (session sys)) \<and> \<not> mastered (concepts_st (session sys) ! i)
        \<and> mastered (concepts_st (session (step data e sys)) ! i) \<longrightarrow>
        (\<exists>n cid hist res.
            e = Settle n (EvaluateChallengeReply (Inr res)) \<and> passed res
            \<and> n < length (pending sys)
            \<and> pending sys ! n = AwaitEvaluateChallenge cid hist
            \<and> c_id (concepts_st (session sys) ! i) = cid))"
proof -
  have a: "generateGameSession parse response = Inr d \<longrightarrow>
      list_all (\<lambda>c. \<not> mastered c) (concepts d)
      \<and> list_all (\<lambda>c. \<not> mastered c) (concepts_st (initialSession d))"
    by (auto dest!: generateGameSession_Inr simp: initialSession_def list_all_iff)
  have b: "i < length (concepts_st (session sys)) \<and> mastered (concepts_st (session sys) ! i) \<longrightarrow>
        mastered (concepts_st (session (step data e sys)) ! i)
        \<and> mastered (concepts_st (session (run data es sys)) ! i)"
    using step_mastered_kept run_mastered_kept by blast
  have c: "i < length (concepts_st (session sys)) \<and> \<not> mastered (concepts_st (session sys) ! i)
        \<and> mastered (concepts_st (session (step data e sys)) ! i) \<longrightarrow>
        (\<exists>n cid hist res.
            e = Settle n (EvaluateChallengeReply (Inr res)) \<and> passed res
            \<and> n < length (pending sys)
            \<and> pending sys ! n = AwaitEvaluateChallenge cid hist
            \<and> c_id (concepts_st (session sys) ! i) = cid)"
    using step_concepts [of data e sys] by (auto split: if_splits)
  from a b c step_concepts_length show ?thesis by blast
qed

lemma exampleTrace_run:
  "run exampleData exampleTrace (initialSystem exampleData) =
     \<lparr> session = (initialSession exampleData)
         \<lparr> activeConceptId := Some ''c1'', conceptMode := SYNC_PROTOCOL,
           challengeQ := Some ''Q?'', challengeAnswer := ''A'', mobileView := FOCUS,
           loadingChallenge := True \<rparr>,
       pending = [AwaitEvaluateChallenge ''c1'' [\<lparr> time = 0, sample_stability = 50 \<rparr>]],
       issued = [GenerateConceptChallenge ''entanglement'', EvaluateChallenge ''Q?'' ''A''] \<rparr>"
  by (simp add: exampleTrace_def initialSystem_def initialSession_def exampleData_def
        handleConceptSelect_def initSyncProtocol_def initSyncProtocol_resume_def
        submitSyncChallenge_def activeConcept_def)

lemma fixture_session:
  "generateGameSession fixtureParse (Inr (Some fixtureText)) =
     Inr (fixturePayload \<lparr> concepts :=
            [\<lparr> c_id = ''c1'', c_term = ''t'', c_definition = ''d'', c_analogy = ''a'',
               mastered = False \<rparr>] \<rparr>)"
  by (simp add: generateGameSession_def fixtureParse_def fixtureText_def fixturePayload_def)

lemma exampleTrace_concepts:
  "concepts_st (session (run exampleData exampleTrace (initialSystem exampleData))) =
     [\<lparr> c_id = ''c1'', c_term = ''entanglement'', c_definition = ''d'',
        c_analogy = ''a'', mastered = False \<rparr>]"
  unfolding exampleTrace_run by (simp add: initialSession_def exampleData_def)

lemma examplePass_step:
  "step exampleData (Settle 0 (EvaluateChallengeReply (Inr examplePass)))
       (run exampleData exampleTrace (initialSystem exampleData)) =
     \<lparr> session = (initialSession exampleData)
         \<lparr> activeConceptId := Some ''c1'', conceptMode := SYNC_PROTOCOL,
           challengeQ := Some ''Q?'', challengeAnswer := ''A'', mobileView := FOCUS,
           loadingChallenge := False,
           challengeFeedback := Some (True, ''ok''),
           concepts_st :=
             [\<lparr> c_id = ''c1'', c_term = ''entanglement'', c_definition = ''d'',
                c_analogy = ''a'', mastered = True \<rparr>],
           history := [\<lparr> time = 0, sample_stability = 50 \<rparr>,
                       \<lparr> time = 1, sample_stability = 60 \<rparr>],
           stats := \<lparr> syncedNodes = 1, stability = 60, streak = 1 \<rparr> \<rparr>,
       pending = [],
       issued = [GenerateConceptChallenge ''entanglement'', EvaluateChallenge ''Q?'' ''A''] \<rparr>"
  unfolding exampleTrace_run
  by (simp add: submitSyncChallenge_resume_def examplePass_def Let_def
        updateStability_def initialSession_def exampleData_def)

theorem mastered_only_rises_witness:
  "generateGameSession fixtureParse (Inr (Some fixtureText)) =
     Inr (fixturePayload \<lparr> concepts :=
            [\<lparr> c_id = ''c1'', c_term = ''t'', c_definition = ''d'', c_analogy = ''a'',
               mastered = False \<rparr>] \<rparr>)
   \<and> \<not> mastered (concepts_st (session
          (run exampleData exampleTrace (initialSystem exampleData))) ! 0)
   \<and> mastered (concepts_st (session
          (step exampleData (Settle 0 (EvaluateChallengeReply (Inr examplePass)))
             (run exampleData exampleTrace (initialSystem exampleData)))) ! 0)
   \<and> mastered (concepts_st (session
          (run exampleData [InitSyncProtocol, ShowSimulation]
             (step exampleData (Settle 0 (EvaluateChallengeReply (Inr examplePass)))
                (run exampleData exampleTrace (initialSystem exampleData))))) ! 0)
   \<and> passed examplePass
   \<and> pending (run exampleData exampleTrace (initialSystem exampleData)) ! 0 =
       AwaitEvaluateChallenge
         (c_id (concepts_st (session
            (run exampleData exampleTrace (initialSystem exampleData))) ! 0))
         [\<lparr> time = 0, sample_stability = 50 \<rparr>]"
proof -
  have who: "passed examplePass
     \<and> pending (run exampleData exampleTrace (initialSystem exampleData)) ! 0 =
       AwaitEvaluateChallenge
         (c_id (concepts_st (session
            (run exampleData exampleTrace (initialSystem exampleData))) ! 0))
         [\<lparr> time = 0, sample_stability = 50 \<rparr>]"
    unfolding exampleTrace_run by (simp add: examplePass_def initialSession_def exampleData_def)
  have before: "\<not> mastered (concepts_st (session
          (run exampleData exampleTrace (initialSystem exampleData))) ! 0)"
    by (simp add: exampleTrace_concepts)
  have risen: "0 < length (concepts_st (session
          (step exampleData (Settle 0 (EvaluateChallengeReply (Inr examplePass)))
             (run exampleData exampleTrace (initialSystem exampleData)))))
      \<and> mastered (concepts_st (session
          (step exampleData (Settle 0 (EvaluateChallengeReply (Inr examplePass)))
             (run exampleData exampleTrace (initialSystem exampleData)))) ! 0)"
    unfolding examplePass_step by simp
  from fixture_session before risen who
    mastered_only_rises
      [of fixtureParse "Inr (Some fixtureText)"
          "fixturePayload \<lparr> concepts :=
            [\<lparr> c_id = ''c1'', c_term = ''t'', c_definition = ''d'', c_analogy = ''a'',
               mastered = False \<rparr>] \<rparr>"
          exampleData "Settle 0 (EvaluateChallengeReply (Inr examplePass))"
          "run exampleData exampleTrace (initialSystem exampleData)" 0 "[]"]
    mastered_only_rises
      [of fixtureParse "Inr (Some fixtureText)"
          "fixturePayload \<lparr> concepts :=
            [\<lparr> c_id = ''c1'', c_term = ''t'', c_definition = ''d'', c_analogy = ''a'',
               mastered = False \<rparr>] \<rparr>"
          exampleData ShowOverview
          "step exampleData (Settle 0 (EvaluateChallengeReply (Inr examplePass)))
             (run exampleData exampleTrace (initialSystem exampleData))" 0
          "[InitSyncProtocol, ShowSimulation]"]
  show ?thesis by blast
qed

subsection \<open>The deep-dive cache\<close>











section \<open>Properties of the generation client\<close>

text \<open>
  C2 as stated fails for two of the five operations: with no response text
  \<^verbatim>\<open>generateConceptChallenge\<close> returns its fallback question and \<^verbatim>\<open>evaluateSocraticAnswer\<close>
  returns the score 0 with the feedback "Analysis failed."; neither fails.
\<close>

theorem fallback_instead_of_failure_counterexample:
  "noText None
   \<and> generateConceptChallenge (Inr None) = Inr ''Explain this concept in your own words.''
   \<and> noUsablePayload (Map.empty :: string \<Rightarrow> SocraticEvaluation option) None
   \<and> evaluateSocraticAnswer Map.empty (Inr None) =
       Inr \<lparr> ev_score = 0, ev_feedback = ''Analysis failed.'' \<rparr>"
  by (simp add: noText_def noUsablePayload_def generateConceptChallenge_def
        evaluateSocraticAnswer_def)

text \<open>
  C2, amended. \<^verbatim>\<open>generateGameSession\<close>, \<^verbatim>\<open>generateDeepDive\<close> and \<^verbatim>\<open>evaluateChallenge\<close> fail
  when the response text is missing, empty or unparseable. \<^verbatim>\<open>evaluateSocraticAnswer\<close> fails
  on a non-empty unparseable text, and on a missing or empty text returns the score 0 with
  the feedback "Analysis failed.". \<^verbatim>\<open>generateConceptChallenge\<close> never parses: it returns a
  non-empty text as it is and its fallback question on a missing or empty text. Every
  operation fails when the call to the service itself is rejected.
\<close>

theorem unusable_payload_outcomes:
  "(noUsablePayload parseS t \<longrightarrow> isl (generateGameSession parseS (Inr t)))
   \<and> (noUsablePayload parseD t \<longrightarrow> isl (generateDeepDive parseD (Inr t)))
   \<and> (noUsablePayload parseC t \<longrightarrow> isl (evaluateChallenge parseC (Inr t)))
   \<and> (noText t \<longrightarrow>
        evaluateSocraticAnswer parseE (Inr t) =
          Inr \<lparr> ev_score = 0, ev_feedback = ''Analysis failed.'' \<rparr>)
   \<and> (s \<noteq> [] \<and> parseE s = None \<longrightarrow>
        evaluateSocraticAnswer parseE (Inr (Some s)) = Inl SyntaxError)
   \<and> (noText t \<longrightarrow>
        generateConceptChallenge (Inr t) = Inr ''Explain this concept in your own words.'')
   \<and> (s \<noteq> [] \<longrightarrow> generateConceptChallenge (Inr (Some s)) = Inr s)
   \<and> generateGameSession parseS (Inl e) = Inl e
   \<and> generateDeepDive parseD (Inl e) = Inl e
   \<and> generateConceptChallenge (Inl e) = Inl e
   \<and> evaluateChallenge parseC (Inl e) = Inl e
   \<and> evaluateSocraticAnswer parseE (Inl e) = Inl e"
  by (auto simp: noUsablePayload_def noText_def generateGameSession_def generateDeepDive_def
        generateConceptChallenge_def evaluateChallenge_def evaluateSocraticAnswer_def
        split: option.splits)

theorem unusable_payload_outcomes_witness:
  "noUsablePayload fixtureParse (Some ''{'')
   \<and> generateGameSession fixtureParse (Inr (Some ''{'')) = Inl SyntaxError
   \<and> noUsablePayload (Map.empty :: string \<Rightarrow> DeepDivePayload option) (Some ''{'')
   \<and> generateDeepDive Map.empty (Inr (Some ''{'')) = Inl SyntaxError
   \<and> noUsablePayload (Map.empty :: string \<Rightarrow> ChallengeResult option) (Some ''{'')
   \<and> evaluateChallenge Map.empty (Inr (Some ''{'')) = Inl SyntaxError
   \<and> evaluateSocraticAnswer Map.empty (Inr (Some ''{'')) = Inl SyntaxError
   \<and> generateConceptChallenge (Inr (Some ''{'')) = Inr ''{''
   \<and> noText (Some [])
   \<and> generateGameSession fixtureParse (Inr (Some [])) = Inl (Error ''No response text generated'')
   \<and> evaluateSocraticAnswer Map.empty (Inr (Some [])) =
       Inr \<lparr> ev_score = 0, ev_feedback = ''Analysis failed.'' \<rparr>
   \<and> generateConceptChallenge (Inr (Some [])) = Inr ''Explain this concept in your own words.''"
  using
    unusable_payload_outcomes
      [of fixtureParse "Some ''{''" Map.empty Map.empty Map.empty "''{''" "Rejected []"]
    unusable_payload_outcomes
      [of fixtureParse "Some []" Map.empty Map.empty Map.empty "''{''" "Rejected []"]
  by (simp add: noUsablePayload_def noText_def generateGameSession_def generateDeepDive_def
        generateConceptChallenge_def evaluateChallenge_def evaluateSocraticAnswer_def
        fixtureParse_def fixtureText_def)

text \<open>
  C8 as stated fails: the numbers of concepts and questions are asked for in the
  instruction and in the descriptions of the schema, but the code returns whatever payload
  parses. The response below has one concept and no question, and the call succeeds.
\<close>

theorem counts_not_checked_counterexample:
  "generateGameSession fixtureParse (Inr (Some fixtureText)) =
     Inr \<lparr> title = ''T'', summary = ''S'',
           concepts =
             [\<lparr> c_id = ''c1'', c_term = ''t'', c_definition = ''d'', c_analogy = ''a'',
                mastered = False \<rparr>],
           questions = [] \<rparr>
   \<and> \<not> meetsCounts
         \<lparr> title = ''T'', summary = ''S'',
           concepts =
             [\<lparr> c_id = ''c1'', c_term = ''t'', c_definition = ''d'', c_analogy = ''a'',
                mastered = False \<rparr>],
           questions = [] \<rparr>"
  by (simp add: generateGameSession_def fixtureParse_def fixtureText_def fixturePayload_def
        meetsCounts_def)

text \<open>
  C8, amended. A successful \<^verbatim>\<open>generateGameSession\<close> call returns the payload that the
  non-empty response text parses to, with every concept's \<open>mastered\<close> flag set to false:
  the title, the summary and the questions are those of the payload, and the concepts
  are the payload's, as many and in the same order, each with its id, term, definition
  and analogy. The code puts no bound on the number of concepts or questions.
\<close>

theorem generateGameSession_returns_payload:
  "generateGameSession parse response = Inr d \<longrightarrow>
     (\<exists>s p. response = Inr (Some s) \<and> s \<noteq> [] \<and> parse s = Some p
        \<and> title d = title p \<and> summary d = summary p \<and> questions d = questions p
        \<and> length (concepts d) = length (concepts p)
        \<and> concepts d = map (\<lambda>c. c \<lparr> mastered := False \<rparr>) (concepts p)
        \<and> map c_id (concepts d) = map c_id (concepts p)
        \<and> map c_term (concepts d) = map c_term (concepts p)
        \<and> map c_definition (concepts d) = map c_definition (concepts p)
        \<and> map c_analogy (concepts d) = map c_analogy (concepts p)
        \<and> list_all (\<lambda>c. \<not> mastered c) (concepts d))"
proof
  assume "generateGameSession parse response = Inr d"
  then obtain s p where sp: "response = Inr (Some s)" "s \<noteq> []" "parse s = Some p"
    and d: "d = p \<lparr> concepts := map (\<lambda>c. c \<lparr> mastered := False \<rparr>) (concepts p) \<rparr>"
    using generateGameSession_Inr by blast
  from d have "title d = title p \<and> summary d = summary p \<and> questions d = questions p
        \<and> length (concepts d) = length (concepts p)
        \<and> concepts d = map (\<lambda>c. c \<lparr> mastered := False \<rparr>) (concepts p)
        \<and> map c_id (concepts d) = map c_id (concepts p)
        \<and> map c_term (concepts d) = map c_term (concepts p)
        \<and> map c_definition (concepts d) = map c_definition (concepts p)
        \<and> map c_analogy (concepts d) = map c_analogy (concepts p)
        \<and> list_all (\<lambda>c. \<not> mastered c) (concepts d)"
    by (simp add: list_all_iff comp_def)
  with sp show "\<exists>s p. response = Inr (Some s) \<and> s \<noteq> [] \<and> parse s = Some p
        \<and> title d = title p \<and> summary d = summary p \<and> questions d = questions p
        \<and> length (concepts d) = length (concepts p)
        \<and> concepts d = map (\<lambda>c. c \<lparr> mastered := False \<rparr>) (concepts p)
        \<and> map c_id (concepts d) = map c_id (concepts p)
        \<and> map c_term (concepts d) = map c_term (concepts p)
        \<and> map c_definition (concepts d) = map c_definition (concepts p)
        \<and> map c_analogy (concepts d) = map c_analogy (concepts p)
        \<and> list_all (\<lambda>c. \<not> mastered c) (concepts d)"
    by blast
qed

theorem generateGameSession_returns_payload_witness:
  "generateGameSession fixtureParse (Inr (Some fixtureText)) =
     Inr (fixturePayload \<lparr> concepts :=
            [\<lparr> c_id = ''c1'', c_term = ''t'', c_definition = ''d'', c_analogy = ''a'',
               mastered = False \<rparr>] \<rparr>)
   \<and> fixtureParse fixtureText = Some fixturePayload
   \<and> mastered (concepts fixturePayload ! 0)
   \<and> length (concepts fixturePayload) = 1"
  using generateGameSession_returns_payload
      [of fixtureParse "Inr (Some fixtureText)"
          "fixturePayload \<lparr> concepts :=
            [\<lparr> c_id = ''c1'', c_term = ''t'', c_definition = ''d'', c_analogy = ''a'',
               mastered = False \<rparr>] \<rparr>"]
    fixture_session
  by (simp add: fixtureParse_def fixturePayload_def)

section \<open>Properties of the ingest step\<close>

text \<open>
  C10. \<^verbatim>\<open>handleFile\<close> clears the pasted text for every file. For a file of an unsupported
  type (not \<^verbatim>\<open>text/plain\<close>, not named \<^verbatim>\<open>.md\<close> or \<^verbatim>\<open>.txt\<close>, not \<^verbatim>\<open>application/pdf\<close>) it shows the
  alert and starts no read: the state it leaves is the one before with the text erased,
  so a loaded PDF payload stays in place.
\<close>

theorem handleFile_clears_text:
  "ingest_text (fst (handleFile file st)) = []
   \<and> (\<not> supported file \<longrightarrow>
        handleFile file st =
          (st \<lparr> ingest_text := [] \<rparr>, Alert ''Currently supported formats: PDF, TXT, MD'')
        \<and> loadedFile (fst (handleFile file st)) = loadedFile st)"
  by (simp add: handleFile_def supported_def Let_def)

theorem handleFile_clears_text_witness:
  "\<not> supported \<lparr> file_name = ''notes.docx'', file_type = ''application/msword'' \<rparr>
   \<and> handleFile \<lparr> file_name = ''notes.docx'', file_type = ''application/msword'' \<rparr>
        \<lparr> ingest_text = ''pasted text'', dragActive = False,
          loadedFile = Some \<lparr> lf_name = ''a.pdf'', lf_type = ''application/pdf'',
                               lf_data = Some ''QUJD'' \<rparr> \<rparr>
       = (\<lparr> ingest_text = [], dragActive = False,
            loadedFile = Some \<lparr> lf_name = ''a.pdf'', lf_type = ''application/pdf'',
                                 lf_data = Some ''QUJD'' \<rparr> \<rparr>,
          Alert ''Currently supported formats: PDF, TXT, MD'')"
  using handleFile_clears_text
      [of "\<lparr> file_name = ''notes.docx'', file_type = ''application/msword'' \<rparr>"
          "\<lparr> ingest_text = ''pasted text'', dragActive = False,
             loadedFile = Some \<lparr> lf_name = ''a.pdf'', lf_type = ''application/pdf'',
                                  lf_data = Some ''QUJD'' \<rparr> \<rparr>"]
  by (simp add: supported_def endsWith_def)

end
